theory Spec2Isabelle
  imports Complex_Main "HOL-Library.Log_Nat"
begin

section \<open>JavaScript numbers\<close>

text \<open>
  A JavaScript number is an IEEE 754 binary64 value. The finite ones are carried by
  their exact rational value; every arithmetic operation computes the exact result and
  rounds it to the nearest binary64 value, ties to the even significand. The sign of
  zero is not kept: the programs below only add, multiply, divide by a positive length
  and print with \<^verbatim>\<open>toFixed\<close>, none of which tells the two zeros apart.
\<close>

datatype jsnum = Fin rat | PosInf | NegInf | NaN

definition pow2 :: "int \<Rightarrow> rat" where
  "pow2 k = (if 0 \<le> k then 2 ^ nat k else 1 / 2 ^ nat (- k))"

definition ilog2 :: "rat \<Rightarrow> int" where
  \<comment> \<open>the integer \<open>e\<close> with \<open>2 ^ e \<le> \<bar>x\<bar> < 2 ^ (e + 1)\<close>, for \<open>x \<noteq> 0\<close>\<close>
  "ilog2 x =
     (if 1 \<le> \<bar>x\<bar> then bitlen \<lfloor>\<bar>x\<bar>\<rfloor> - 1
      else - bitlen (\<lceil>1 / \<bar>x\<bar>\<rceil> - 1))"

definition round_half_even :: "rat \<Rightarrow> int" where
  "round_half_even x =
     (let f = \<lfloor>x\<rfloor>; r = x - of_int f
      in if r < 1 / 2 then f else if 1 / 2 < r then f + 1
         else if even f then f else f + 1)"

definition round_double :: "rat \<Rightarrow> jsnum" where
  \<comment> \<open>53 significant bits, least exponent -1022 (subnormals below), overflow to infinity\<close>
  "round_double x =
     (if x = 0 then Fin 0
      else
        let e = max (ilog2 x) (- 1022);
            q = pow2 (e - 52);
            r = of_int (round_half_even (x / q)) * q
        in if pow2 1024 \<le> r then PosInf
           else if r \<le> - pow2 1024 then NegInf
           else Fin r)"

fun fadd :: "jsnum \<Rightarrow> jsnum \<Rightarrow> jsnum" where
  "fadd NaN _ = NaN"
| "fadd _ NaN = NaN"
| "fadd PosInf NegInf = NaN"
| "fadd NegInf PosInf = NaN"
| "fadd PosInf _ = PosInf"
| "fadd NegInf _ = NegInf"
| "fadd _ PosInf = PosInf"
| "fadd _ NegInf = NegInf"
| "fadd (Fin a) (Fin b) = round_double (a + b)"

definition signed_inf :: "bool \<Rightarrow> jsnum" where
  "signed_inf positive = (if positive then PosInf else NegInf)"

fun fmul :: "jsnum \<Rightarrow> jsnum \<Rightarrow> jsnum" where
  "fmul NaN _ = NaN"
| "fmul _ NaN = NaN"
| "fmul (Fin a) (Fin b) = round_double (a * b)"
| "fmul (Fin a) PosInf = (if a = 0 then NaN else signed_inf (0 < a))"
| "fmul (Fin a) NegInf = (if a = 0 then NaN else signed_inf (a < 0))"
| "fmul PosInf (Fin b) = (if b = 0 then NaN else signed_inf (0 < b))"
| "fmul NegInf (Fin b) = (if b = 0 then NaN else signed_inf (b < 0))"
| "fmul PosInf PosInf = PosInf"
| "fmul NegInf NegInf = PosInf"
| "fmul PosInf NegInf = NegInf"
| "fmul NegInf PosInf = NegInf"

fun fdiv :: "jsnum \<Rightarrow> jsnum \<Rightarrow> jsnum" where
  "fdiv NaN _ = NaN"
| "fdiv _ NaN = NaN"
| "fdiv (Fin a) (Fin b) =
     (if b = 0 then (if a = 0 then NaN else signed_inf (0 < a))
      else round_double (a / b))"
| "fdiv (Fin a) PosInf = Fin 0"
| "fdiv (Fin a) NegInf = Fin 0"
| "fdiv PosInf (Fin b) = signed_inf (0 \<le> b)"
| "fdiv NegInf (Fin b) = signed_inf (b < 0)"
| "fdiv PosInf PosInf = NaN"
| "fdiv PosInf NegInf = NaN"
| "fdiv NegInf PosInf = NaN"
| "fdiv NegInf NegInf = NaN"

definition js_number :: "rat \<Rightarrow> jsnum" where
  \<comment> \<open>the number a decimal literal of the request denotes, as \<^verbatim>\<open>JSON.parse\<close> reads it\<close>
  "js_number x = round_double x"

text \<open>
  \<^verbatim>\<open>x.toFixed(2)\<close>: a finite \<open>x\<close> below \<open>10^21\<close> in magnitude is printed with two
  decimals, the integer \<open>n\<close> of hundredths being the one nearest to \<open>100 * x\<close> and the
  larger one on a tie; a negative \<open>x\<close> is printed as the minus sign and the text of
  \<open>- x\<close>. Larger numbers are printed by \<^verbatim>\<open>Number.prototype.toString\<close> in exponent
  notation, whose digits are not needed here.
\<close>

datatype fixed_text =
    FixedNaN
  | FixedInfinity bool
  | FixedExponent
  | Fixed bool nat   \<comment> \<open>negative sign, hundredths: \<open>Fixed False 8000\<close> is the text 80.00\<close>

definition hundredths :: "rat \<Rightarrow> nat" where
  "hundredths x = nat \<lfloor>x * 100 + 1 / 2\<rfloor>"

fun toFixed2 :: "jsnum \<Rightarrow> fixed_text" where
  "toFixed2 NaN = FixedNaN"
| "toFixed2 PosInf = FixedInfinity True"
| "toFixed2 NegInf = FixedInfinity False"
| "toFixed2 (Fin x) =
     (if 10 ^ 21 \<le> \<bar>x\<bar> then FixedExponent
      else if x < 0 then Fixed True (hundredths (- x))
      else Fixed False (hundredths x))"

section \<open>Text of natural numbers\<close>

definition digit :: "nat \<Rightarrow> char" where
  "digit d = ''0123456789'' ! d"

function show_nat :: "nat \<Rightarrow> string" where
  "show_nat n = (if n < 10 then [digit n] else show_nat (n div 10) @ [digit (n mod 10)])"
  by pat_completeness auto
termination
  by (relation "measure id") auto

declare show_nat.simps [simp del]

fun join :: "string \<Rightarrow> string list \<Rightarrow> string" where
  "join sep [] = []"
| "join sep [x] = x"
| "join sep (x # y # ys) = x @ sep @ join sep (y # ys)"

section \<open>The aggregator\<close>

text \<open>
  A detected object as the browser's detector submits it: the label \<^verbatim>\<open>class\<close> (a
  string) and the confidence \<^verbatim>\<open>score\<close> (a number). Further members (the bounding
  box) are stored with the batch and never read.
\<close>

record detected_object =
  cls :: string
  score :: jsnum

definition totalObjects :: "detected_object list \<Rightarrow> nat" where
  "totalObjects objects = length objects"

definition uniqueObjects :: "detected_object list \<Rightarrow> nat" where
  \<comment> \<open>\<^verbatim>\<open>new Set(objects.map(obj => obj.class)).size\<close>\<close>
  "uniqueObjects objects = length (remdups (map cls objects))"

definition avgConfidence :: "detected_object list \<Rightarrow> jsnum" where
  \<comment> \<open>\<^verbatim>\<open>(objects.reduce((sum, obj) => sum + obj.score, 0) / totalObjects) * 100\<close>\<close>
  "avgConfidence objects =
     fmul (fdiv (foldl (\<lambda>sum obj. fadd sum (score obj)) (Fin 0) objects)
                (Fin (of_nat (totalObjects objects))))
          (Fin 100)"

text \<open>
  \<^verbatim>\<open>objectCounts\<close> is a plain object used as a dictionary. Its own properties are kept
  in creation order. A value is a number, or a string once a member inherited from
  \<^verbatim>\<open>Object.prototype\<close> got into the sum.
\<close>

datatype count_val = Count nat | Text string

definition native_function :: "string \<Rightarrow> string option" where
  \<comment> \<open>the function members of \<^verbatim>\<open>Object.prototype\<close>, as text (Node.js)\<close>
  "native_function name =
     (if name = ''constructor'' then Some ''function Object() { [native code] }''
      else if name \<in> set [''__defineGetter__'', ''__defineSetter__'', ''hasOwnProperty'',
                ''__lookupGetter__'', ''__lookupSetter__'', ''isPrototypeOf'',
                ''propertyIsEnumerable'', ''toString'', ''valueOf'', ''toLocaleString'']
      then Some (''function '' @ name @ ''() { [native code] }'')
      else None)"

definition inherited :: "string \<Rightarrow> bool" where
  "inherited name \<longleftrightarrow> name = ''__proto__'' \<or> native_function name \<noteq> None"

fun assign :: "(string \<times> 'v) list \<Rightarrow> string \<Rightarrow> 'v \<Rightarrow> (string \<times> 'v) list" where
  "assign [] k v = [(k, v)]"
| "assign ((k', v') # ps) k v = (if k' = k then (k, v) # ps else (k', v') # assign ps k v)"

definition increment :: "(string \<times> count_val) list \<Rightarrow> string \<Rightarrow> (string \<times> count_val) list" where
  \<comment> \<open>\<^verbatim>\<open>objectCounts[name] = (objectCounts[name] || 0) + 1\<close>\<close>
  "increment oc name =
     (case map_of oc name of
        Some (Count n) \<Rightarrow> assign oc name (Count (n + 1))
      | Some (Text t) \<Rightarrow> assign oc name (if t = [] then Count 1 else Text (t @ ''1''))
      | None \<Rightarrow>
          if name = ''__proto__'' then oc
          else (case native_function name of
                  Some f \<Rightarrow> assign oc name (Text (f @ ''1''))
                | None \<Rightarrow> assign oc name (Count 1)))"

definition objectCounts :: "string list \<Rightarrow> (string \<times> count_val) list" where
  "objectCounts objectNames = foldl increment [] objectNames"

text \<open>
  \<^verbatim>\<open>Object.entries\<close> lists the own properties whose name is an array index (the
  canonical decimal text of an integer from 0 to \<open>2^32 - 2\<close>) first, in ascending numeric
  order, and the other ones after them in creation order.
\<close>

definition is_digit :: "char \<Rightarrow> bool" where
  "is_digit c \<longleftrightarrow> c \<in> set ''0123456789''"

definition digits_value :: "string \<Rightarrow> int" where
  "digits_value s = foldl (\<lambda>n c. 10 * n + (of_char c - 48)) 0 s"

definition is_array_index :: "string \<Rightarrow> bool" where
  "is_array_index s \<longleftrightarrow>
     s \<noteq> [] \<and> list_all is_digit s \<and> (length s = 1 \<or> hd s \<noteq> CHR ''0'')
     \<and> digits_value s \<le> 4294967294"

definition Object_entries :: "(string \<times> 'v) list \<Rightarrow> (string \<times> 'v) list" where
  "Object_entries props =
     sort_key (\<lambda>p. digits_value (fst p)) (filter (\<lambda>p. is_array_index (fst p)) props)
     @ filter (\<lambda>p. \<not> is_array_index (fst p)) props"

fun entry_text :: "string \<times> count_val \<Rightarrow> string" where
  \<comment> \<open>the template \<^verbatim>\<open>${name} (${count})\<close>\<close>
  "entry_text (name, Count n) = name @ '' ('' @ show_nat n @ '')''"
| "entry_text (name, Text t) = name @ '' ('' @ t @ '')''"

definition detectedObjectsText :: "detected_object list \<Rightarrow> string" where
  "detectedObjectsText objects =
     join '', '' (map entry_text (Object_entries (objectCounts (map cls objects))))"

section \<open>Request values\<close>

text \<open>
  The member \<^verbatim>\<open>objects\<close> of a request body is any JSON value; an array is taken to
  hold detected objects, as the request format has it. \<open>JUndefined\<close> is the value of a
  member that is absent.
\<close>

datatype jsval =
    JUndefined
  | JNull
  | JBool bool
  | JNum jsnum
  | JStr string
  | JObj "(string \<times> jsval) list"
  | JArray "detected_object list"

fun truthy :: "jsval \<Rightarrow> bool" where
  "truthy JUndefined = False"
| "truthy JNull = False"
| "truthy (JBool b) = b"
| "truthy (JNum n) = (n \<noteq> Fin 0 \<and> n \<noteq> NaN)"
| "truthy (JStr s) = (s \<noteq> [])"
| "truthy (JObj ps) = True"
| "truthy (JArray xs) = True"

fun js_length :: "jsval \<Rightarrow> jsval" where
  \<comment> \<open>the member \<^verbatim>\<open>length\<close> of a value that is neither null nor undefined\<close>
  "js_length (JArray xs) = JNum (Fin (of_nat (length xs)))"
| "js_length (JStr s) = JNum (Fin (of_nat (length s)))"
| "js_length (JObj ps) = (case map_of ps ''length'' of Some v \<Rightarrow> v | None \<Rightarrow> JUndefined)"
| "js_length _ = JUndefined"

definition no_objects :: "jsval \<Rightarrow> bool" where
  \<comment> \<open>\<^verbatim>\<open>!objects || objects.length === 0\<close>\<close>
  "no_objects objects \<longleftrightarrow> \<not> truthy objects \<or> js_length objects = JNum (Fin 0)"

text \<open>
  What \<^verbatim>\<open>JSON.parse\<close> makes of a request body: it throws on malformed text (the empty
  text included); it may return \<^verbatim>\<open>null\<close>, which cannot be destructured; any other
  value is destructured into \<^verbatim>\<open>source\<close> (a string when present) and
  \<^verbatim>\<open>objects\<close>.
\<close>

datatype json_body =
    Malformed
  | BodyNull
  | Body "string option" jsval

section \<open>The store\<close>

text \<open>
  The PostgreSQL database behind the connection pool, as far as the SQL statements of
  the two files use it: whether it can be reached, and the table \<^verbatim>\<open>detections\<close>
  (absent before the first \<^verbatim>\<open>CREATE TABLE\<close>) with its columns, its rows in
  insertion order and the next value of the sequence behind \<^verbatim>\<open>id\<close> (\<open>row_id\<close>
  here). The columns have the types the two schemas declare. A \<^verbatim>\<open>DECIMAL(5,2)\<close>
  value is an integer number of hundredths below \<open>1000.00\<close> in magnitude, or the
  numeric NaN. \<^verbatim>\<open>objects_data\<close> holds the text \<^verbatim>\<open>JSON.stringify\<close> makes of the
  batch, kept as a term. An instant is a reading of the store's clock, a natural number.
  A statement that fails leaves the store as it was.
\<close>

datatype decimal = DecNaN | Dec int

datatype json_text = JSON_stringify "detected_object list"

record row =
  row_id :: nat
  timestamp :: nat
  source :: string
  total_objects :: int
  unique_objects :: int
  avg_confidence :: decimal
  detected_objects :: string
  objects_data :: json_text
  created_at :: nat

record table =
  columns :: "string list"
  rows :: "row list"
  serial :: nat

record store =
  reachable :: bool
  detections :: "table option"

datatype pg_error =
    ConnectionFailure
  | UndefinedTable
  | UndefinedColumn
  | DataException      \<comment> \<open>a value does not fit the type of its column or parameter\<close>
  | NegativeLimit

definition pg_create_table :: "string list \<Rightarrow> store \<Rightarrow> pg_error + store" where
  \<comment> \<open>\<^verbatim>\<open>CREATE TABLE IF NOT EXISTS detections (...)\<close>\<close>
  "pg_create_table cols s =
     (if \<not> reachable s then Inl ConnectionFailure
      else case detections s of
             Some t \<Rightarrow> Inr s
           | None \<Rightarrow> Inr (s\<lparr>detections := Some \<lparr>columns = cols, rows = [], serial = 1\<rparr>\<rparr>))"

definition pg_now :: "store \<Rightarrow> nat \<Rightarrow> pg_error + nat" where
  \<comment> \<open>\<^verbatim>\<open>SELECT NOW()\<close>\<close>
  "pg_now s now = (if \<not> reachable s then Inl ConnectionFailure else Inr now)"

definition varchar :: "nat \<Rightarrow> string \<Rightarrow> string option" where
  \<comment> \<open>assignment to \<^verbatim>\<open>VARCHAR(n)\<close>: excess characters must all be spaces, and are cut\<close>
  "varchar n s =
     (if length s \<le> n then Some s
      else if list_all (\<lambda>c. c = CHR '' '') (drop n s) then Some (take n s)
      else None)"

definition int4 :: "nat \<Rightarrow> int option" where
  \<comment> \<open>assignment to \<^verbatim>\<open>INTEGER\<close>\<close>
  "int4 n = (if int n < 2 ^ 31 then Some (int n) else None)"

fun decimal_5_2 :: "fixed_text \<Rightarrow> decimal option" where
  \<comment> \<open>assignment of the text to \<^verbatim>\<open>DECIMAL(5,2)\<close>\<close>
  "decimal_5_2 FixedNaN = Some DecNaN"
| "decimal_5_2 (FixedInfinity _) = None"
| "decimal_5_2 FixedExponent = None"
| "decimal_5_2 (Fixed negative n) =
     (if n < 100000 then Some (Dec (if negative then - int n else int n)) else None)"

definition insert_columns :: "string list" where
  "insert_columns = [''source'', ''total_objects'', ''unique_objects'', ''avg_confidence'',
     ''detected_objects'', ''objects_data'']"

definition pg_insert ::
  "store \<Rightarrow> nat \<Rightarrow> string \<Rightarrow> nat \<Rightarrow> nat \<Rightarrow> fixed_text \<Rightarrow> string \<Rightarrow> json_text
    \<Rightarrow> pg_error + row \<times> store" where
  \<comment> \<open>\<^verbatim>\<open>INSERT INTO detections (source, total_objects, unique_objects, avg_confidence,
      detected_objects, objects_data) VALUES ($1, $2, $3, $4, $5, $6) RETURNING *\<close>;
      \<^verbatim>\<open>id\<close>, \<^verbatim>\<open>timestamp\<close> and \<^verbatim>\<open>created_at\<close> take their defaults\<close>
  "pg_insert s now v1 v2 v3 v4 v5 v6 =
     (if \<not> reachable s then Inl ConnectionFailure
      else case detections s of
        None \<Rightarrow> Inl UndefinedTable
      | Some t \<Rightarrow>
          if \<not> set insert_columns \<subseteq> set (columns t) then Inl UndefinedColumn
          else (case (varchar 50 v1, int4 v2, int4 v3, decimal_5_2 v4, varchar 500 v5) of
                  (Some src, Some tot, Some uniq, Some avg, Some txt) \<Rightarrow>
                    let r = \<lparr>row_id = serial t, timestamp = now, source = src,
                             total_objects = tot, unique_objects = uniq,
                             avg_confidence = avg, detected_objects = txt,
                             objects_data = v6, created_at = now\<rparr>
                    in Inr (r, s\<lparr>detections :=
                                  Some (t\<lparr>rows := rows t @ [r], serial := serial t + 1\<rparr>)\<rparr>)
                | _ \<Rightarrow> Inl DataException))"

text \<open>
  A query parameter reaches the store as text. \<^verbatim>\<open>LIMIT $1\<close> reads it as a
  \<^verbatim>\<open>bigint\<close> in decimal notation: blanks, an optional sign, digits, blanks.
\<close>

definition is_space :: "char \<Rightarrow> bool" where
  "is_space c \<longleftrightarrow> c \<in> set [CHR '' '', CHR 0x09, CHR 0x0A, CHR 0x0B, CHR 0x0C, CHR 0x0D]"

definition int8in :: "string \<Rightarrow> int option" where
  "int8in s =
     (let t = dropWhile is_space s;
          negative = (t \<noteq> [] \<and> hd t = CHR ''-'');
          u = (if t \<noteq> [] \<and> (hd t = CHR ''-'' \<or> hd t = CHR ''+'') then tl t else t);
          ds = takeWhile is_digit u;
          v = (if negative then - digits_value ds else digits_value ds)
      in if ds = [] \<or> \<not> list_all is_space (dropWhile is_digit u) then None
         else if v < - (2 ^ 63) \<or> 2 ^ 63 \<le> v then None
         else Some v)"

definition newest_first :: "row list \<Rightarrow> row list" where
  \<comment> \<open>\<^verbatim>\<open>ORDER BY created_at DESC\<close>; the order among equal instants is the store's choice\<close>
  "newest_first rs = rev (sort_key created_at rs)"

definition select_columns :: "string list" where
  "select_columns = [''id'', ''timestamp'', ''source'', ''total_objects'', ''unique_objects'',
     ''avg_confidence'', ''detected_objects'', ''objects_data'', ''created_at'']"

definition pg_select_recent :: "store \<Rightarrow> string \<Rightarrow> pg_error + row list" where
  \<comment> \<open>\<^verbatim>\<open>SELECT id, timestamp, source, total_objects, unique_objects, avg_confidence,
      detected_objects, objects_data, created_at FROM detections
      ORDER BY created_at DESC LIMIT $1\<close>\<close>
  "pg_select_recent s limit =
     (if \<not> reachable s then Inl ConnectionFailure
      else case detections s of
        None \<Rightarrow> Inl UndefinedTable
      | Some t \<Rightarrow>
          if \<not> set select_columns \<subseteq> set (columns t) then Inl UndefinedColumn
          else (case int8in limit of
                  None \<Rightarrow> Inl DataException
                | Some n \<Rightarrow>
                    if n < 0 then Inl NegativeLimit
                    else Inr (take (nat n) (newest_first (rows t)))))"

text \<open>
  The aggregates of \<^verbatim>\<open>/api/stats\<close>. Each one runs over the rows with a transition
  function, as the store evaluates it; \<^verbatim>\<open>SUM\<close>, \<^verbatim>\<open>AVG\<close> and \<^verbatim>\<open>MAX\<close> of
  no rows are null. The mean of \<^verbatim>\<open>NUMERIC\<close> values is taken exactly.
\<close>

datatype numeric = NumNaN | Num rat

record stats =
  total_detections :: nat
  total_objects_detected :: "int option"
  overall_avg_confidence :: "numeric option"
  max_objects_in_detection :: "int option"

definition count_star :: "row list \<Rightarrow> nat" where
  "count_star rs = foldl (\<lambda>n r. n + 1) 0 rs"

definition sum_agg :: "int list \<Rightarrow> int option" where
  "sum_agg vs = foldl (\<lambda>acc v. Some (case acc of None \<Rightarrow> v | Some a \<Rightarrow> a + v)) None vs"

definition max_agg :: "int list \<Rightarrow> int option" where
  "max_agg vs = foldl (\<lambda>acc v. Some (case acc of None \<Rightarrow> v | Some a \<Rightarrow> max a v)) None vs"

fun avg_step :: "nat \<times> numeric \<Rightarrow> decimal \<Rightarrow> nat \<times> numeric" where
  "avg_step (n, Num a) (Dec h) = (n + 1, Num (a + of_int h / 100))"
| "avg_step (n, _) _ = (n + 1, NumNaN)"

definition avg_agg :: "decimal list \<Rightarrow> numeric option" where
  "avg_agg vs =
     (case foldl avg_step (0, Num 0) vs of
        (n, Num a) \<Rightarrow> if n = 0 then None else Some (Num (a / of_nat n))
      | (n, NumNaN) \<Rightarrow> if n = 0 then None else Some NumNaN)"

definition stats_columns :: "string list" where
  "stats_columns = [''total_objects'', ''avg_confidence'']"

definition pg_select_stats :: "store \<Rightarrow> pg_error + stats" where
  \<comment> \<open>\<^verbatim>\<open>SELECT COUNT(*) as total_detections, SUM(total_objects) as total_objects_detected,
      AVG(avg_confidence) as overall_avg_confidence,
      MAX(total_objects) as max_objects_in_detection FROM detections\<close>\<close>
  "pg_select_stats s =
     (if \<not> reachable s then Inl ConnectionFailure
      else case detections s of
        None \<Rightarrow> Inl UndefinedTable
      | Some t \<Rightarrow>
          if \<not> set stats_columns \<subseteq> set (columns t) then Inl UndefinedColumn
          else Inr \<lparr>total_detections = count_star (rows t),
                    total_objects_detected = sum_agg (map total_objects (rows t)),
                    overall_avg_confidence = avg_agg (map avg_confidence (rows t)),
                    max_objects_in_detection = max_agg (map total_objects (rows t))\<rparr>)"

definition pg_delete_all :: "store \<Rightarrow> pg_error + store" where
  \<comment> \<open>\<^verbatim>\<open>DELETE FROM detections\<close>\<close>
  "pg_delete_all s =
     (if \<not> reachable s then Inl ConnectionFailure
      else case detections s of
        None \<Rightarrow> Inl UndefinedTable
      | Some t \<Rightarrow> Inr (s\<lparr>detections := Some (t\<lparr>rows := []\<rparr>)\<rparr>))"

section \<open>Responses\<close>

text \<open>
  The JSON envelopes. \<open>Saved r\<close> is \<^verbatim>\<open>{success: true, message, data: r}\<close>,
  \<open>Listing n rs\<close> is \<^verbatim>\<open>{success: true, count: n, data: rs}\<close>, \<open>Statistics st\<close> is
  \<^verbatim>\<open>{success: true, stats: st}\<close>, \<open>Deleted\<close> is \<^verbatim>\<open>{success: true, message}\<close> and
  \<open>Failure m d\<close> is \<^verbatim>\<open>{error: m, details: d}\<close>, the details being the message of
  the exception caught. The messages are: \<open>NoObjects\<close> "No hay objetos para guardar",
  \<open>SaveFailed\<close> "Error guardando en base de datos", \<open>ReadFailed\<close> "Error obteniendo
  datos", \<open>StatsFailed\<close> "Error obteniendo estadisticas", \<open>DeleteFailed\<close> "Error
  eliminando datos", \<open>RouteNotFound\<close> "Ruta no encontrada".
\<close>

datatype message = NoObjects | SaveFailed | ReadFailed | StatsFailed | DeleteFailed | RouteNotFound

datatype exception = SyntaxError | TypeError | Database pg_error

datatype payload =
    Empty
  | HealthOk nat
  | HealthError exception
  | Saved row
  | Listing nat "row list"
  | Statistics stats
  | Deleted
  | Failure message "exception option"

definition source_or_camera :: "string option \<Rightarrow> string" where
  \<comment> \<open>\<^verbatim>\<open>source || 'camera'\<close>\<close>
  "source_or_camera src = (case src of Some t \<Rightarrow> if t \<noteq> [] then t else ''camera'' | None \<Rightarrow> ''camera'')"

definition limit_or_50 :: "string option \<Rightarrow> string" where
  \<comment> \<open>\<^verbatim>\<open>query.limit || 50\<close>, as the text sent for \<^verbatim>\<open>$1\<close>\<close>
  "limit_or_50 l = (case l of Some t \<Rightarrow> if t \<noteq> [] then t else ''50'' | None \<Rightarrow> ''50'')"

section \<open>The standalone server (server.js)\<close>

text \<open>
  Every route handler takes the store and returns the status and JSON body it sends
  together with the store it leaves. \<open>now\<close> is the reading of the store's clock during
  the request.
\<close>

definition server_schema :: "string list" where
  "server_schema = [''id'', ''timestamp'', ''source'', ''total_objects'', ''unique_objects'',
     ''avg_confidence'', ''objects_data'', ''created_at'']"

definition server_initDatabase :: "store \<Rightarrow> store" where
  \<comment> \<open>an error is logged and dropped\<close>
  "server_initDatabase s = (case pg_create_table server_schema s of Inr s' \<Rightarrow> s' | Inl e \<Rightarrow> s)"

definition app_get_health :: "store \<Rightarrow> nat \<Rightarrow> (nat \<times> payload) \<times> store" where
  "app_get_health s now =
     (case pg_now s now of
        Inr t \<Rightarrow> ((200, HealthOk t), s)
      | Inl e \<Rightarrow> ((500, HealthError (Database e)), s))"

definition app_post_detections ::
  "store \<Rightarrow> nat \<Rightarrow> string option \<Rightarrow> jsval \<Rightarrow> (nat \<times> payload) \<times> store" where
  \<comment> \<open>\<open>src\<close> and \<open>objects\<close> are the members of \<^verbatim>\<open>req.body\<close>\<close>
  "app_post_detections s now src objects =
     (if no_objects objects then ((400, Failure NoObjects None), s)
      else case objects of
        JArray objs \<Rightarrow>
          (case pg_insert s now (source_or_camera src) (totalObjects objs)
                  (uniqueObjects objs) (toFixed2 (avgConfidence objs))
                  (detectedObjectsText objs) (JSON_stringify objs) of
             Inr (r, s') \<Rightarrow> ((200, Saved r), s')
           | Inl e \<Rightarrow> ((500, Failure SaveFailed (Some (Database e))), s))
      | _ \<Rightarrow> ((500, Failure SaveFailed (Some TypeError)), s))"

definition app_get_detections :: "store \<Rightarrow> string option \<Rightarrow> (nat \<times> payload) \<times> store" where
  \<comment> \<open>the argument is \<^verbatim>\<open>req.query.limit\<close>\<close>
  "app_get_detections s l =
     (case pg_select_recent s (limit_or_50 l) of
        Inr rs \<Rightarrow> ((200, Listing (length rs) rs), s)
      | Inl e \<Rightarrow> ((500, Failure ReadFailed (Some (Database e))), s))"

definition app_get_stats :: "store \<Rightarrow> (nat \<times> payload) \<times> store" where
  "app_get_stats s =
     (case pg_select_stats s of
        Inr st \<Rightarrow> ((200, Statistics st), s)
      | Inl e \<Rightarrow> ((500, Failure StatsFailed (Some (Database e))), s))"

definition app_delete_detections :: "store \<Rightarrow> (nat \<times> payload) \<times> store" where
  "app_delete_detections s =
     (case pg_delete_all s of
        Inr s' \<Rightarrow> ((200, Deleted), s')
      | Inl e \<Rightarrow> ((500, Failure DeleteFailed (Some (Database e))), s))"

section \<open>The function handler\<close>

record response =
  statusCode :: nat
  headers :: "(string \<times> string) list"
  body :: payload

definition function_schema :: "string list" where
  "function_schema = [''id'', ''timestamp'', ''source'', ''total_objects'', ''unique_objects'',
     ''avg_confidence'', ''detected_objects'', ''objects_data'', ''created_at'']"

definition initDatabase :: "store \<Rightarrow> store" where
  "initDatabase s = (case pg_create_table function_schema s of Inr s' \<Rightarrow> s' | Inl e \<Rightarrow> s)"

definition cors_headers :: "(string \<times> string) list" where
  "cors_headers =
     [(''Access-Control-Allow-Origin'', ''*''),
      (''Access-Control-Allow-Headers'', ''Content-Type''),
      (''Access-Control-Allow-Methods'', ''GET, POST, PUT, DELETE, OPTIONS''),
      (''Content-Type'', ''application/json'')]"

definition reply :: "nat \<Rightarrow> payload \<Rightarrow> response" where
  "reply code b = \<lparr>statusCode = code, headers = cors_headers, body = b\<rparr>"

definition handleOptions :: response where
  "handleOptions = reply 200 Empty"

definition handleHealth :: "store \<Rightarrow> nat \<Rightarrow> response \<times> store" where
  "handleHealth s now =
     (case pg_now s now of
        Inr t \<Rightarrow> (reply 200 (HealthOk t), s)
      | Inl e \<Rightarrow> (reply 500 (HealthError (Database e)), s))"

definition handlePostDetections :: "store \<Rightarrow> nat \<Rightarrow> json_body \<Rightarrow> response \<times> store" where
  "handlePostDetections s now b =
     (case b of
        Malformed \<Rightarrow> (reply 500 (Failure SaveFailed (Some SyntaxError)), s)
      | BodyNull \<Rightarrow> (reply 500 (Failure SaveFailed (Some TypeError)), s)
      | Body src objects \<Rightarrow>
          if no_objects objects then (reply 400 (Failure NoObjects None), s)
          else (case objects of
             JArray objs \<Rightarrow>
               (case pg_insert s now (source_or_camera src) (totalObjects objs)
                       (uniqueObjects objs) (toFixed2 (avgConfidence objs))
                       (detectedObjectsText objs) (JSON_stringify objs) of
                  Inr (r, s') \<Rightarrow> (reply 200 (Saved r), s')
                | Inl e \<Rightarrow> (reply 500 (Failure SaveFailed (Some (Database e))), s))
           | _ \<Rightarrow> (reply 500 (Failure SaveFailed (Some TypeError)), s)))"

definition handleGetDetections :: "store \<Rightarrow> (string \<times> string) list \<Rightarrow> response \<times> store" where
  "handleGetDetections s query =
     (case pg_select_recent s (limit_or_50 (map_of query ''limit'')) of
        Inr rs \<Rightarrow> (reply 200 (Listing (length rs) rs), s)
      | Inl e \<Rightarrow> (reply 500 (Failure ReadFailed (Some (Database e))), s))"

definition handleStats :: "store \<Rightarrow> response \<times> store" where
  "handleStats s =
     (case pg_select_stats s of
        Inr st \<Rightarrow> (reply 200 (Statistics st), s)
      | Inl e \<Rightarrow> (reply 500 (Failure StatsFailed (Some (Database e))), s))"

definition handleDeleteDetections :: "store \<Rightarrow> response \<times> store" where
  "handleDeleteDetections s =
     (case pg_delete_all s of
        Inr s' \<Rightarrow> (reply 200 Deleted, s')
      | Inl e \<Rightarrow> (reply 500 (Failure DeleteFailed (Some (Database e))), s))"

text \<open>
  The event of one invocation. \<open>event_body\<close> is the request text, given by what
  \<^verbatim>\<open>JSON.parse\<close> makes of it; an absent body is replaced by the empty text, which
  does not parse.
\<close>

record event =
  httpMethod :: string
  path :: string
  queryStringParameters :: "(string \<times> string) list option"
  event_body :: "json_body option"

definition handler :: "store \<Rightarrow> nat \<Rightarrow> event \<Rightarrow> response \<times> store" where
  "handler s now ev =
     (if httpMethod ev = ''OPTIONS'' then (handleOptions, s)
      else
        let query = (case queryStringParameters ev of Some q \<Rightarrow> q | None \<Rightarrow> []);
            b = (case event_body ev of Some t \<Rightarrow> t | None \<Rightarrow> Malformed)
        in if path ev = ''/.netlify/functions/api/health'' \<and> httpMethod ev = ''GET''
             then handleHealth s now
           else if path ev = ''/.netlify/functions/api/detections'' \<and> httpMethod ev = ''POST''
             then handlePostDetections s now b
           else if path ev = ''/.netlify/functions/api/detections'' \<and> httpMethod ev = ''GET''
             then handleGetDetections s query
           else if path ev = ''/.netlify/functions/api/stats'' \<and> httpMethod ev = ''GET''
             then handleStats s
           else if path ev = ''/.netlify/functions/api/detections'' \<and> httpMethod ev = ''DELETE''
             then handleDeleteDetections s
           else (reply 404 (Failure RouteNotFound None), s))"

section \<open>Vocabulary of the properties\<close>

subsection \<open>Events and stores\<close>

text \<open>The five operations of the router, as method and path of the function handler.\<close>

definition operations :: "(string \<times> string) list" where
  "operations =
     [(''GET'', ''/.netlify/functions/api/health''),
      (''POST'', ''/.netlify/functions/api/detections''),
      (''GET'', ''/.netlify/functions/api/detections''),
      (''GET'', ''/.netlify/functions/api/stats''),
      (''DELETE'', ''/.netlify/functions/api/detections'')]"

definition post_event :: "json_body \<Rightarrow> event" where
  "post_event b = \<lparr>httpMethod = ''POST'', path = ''/.netlify/functions/api/detections'',
     queryStringParameters = None, event_body = Some b\<rparr>"

definition get_event :: "(string \<times> string) list option \<Rightarrow> event" where
  "get_event q = \<lparr>httpMethod = ''GET'', path = ''/.netlify/functions/api/detections'',
     queryStringParameters = q, event_body = None\<rparr>"


text \<open>What a response of the function handler sends: its status and its JSON body.\<close>

definition sent :: "response \<times> store \<Rightarrow> (nat \<times> payload) \<times> store" where
  "sent out = ((statusCode (fst out), body (fst out)), snd out)"

text \<open>
  \<open>has_table s t\<close>: the store is reachable and holds the table \<open>t\<close>, which has the
  columns the function handler creates. \<open>fresh_store\<close> is a database without the table,
  \<open>store_with rs k\<close> one whose table has the rows \<open>rs\<close> and the next identifier \<open>k\<close>.
\<close>

definition has_table :: "store \<Rightarrow> table \<Rightarrow> bool" where
  "has_table s t \<longleftrightarrow>
     reachable s \<and> detections s = Some t \<and> set function_schema \<subseteq> set (columns t)"

definition fresh_store :: store where
  "fresh_store = \<lparr>reachable = True, detections = None\<rparr>"

definition store_with :: "row list \<Rightarrow> nat \<Rightarrow> store" where
  "store_with rs k = \<lparr>reachable = True,
     detections = Some \<lparr>columns = function_schema, rows = rs, serial = k\<rparr>\<rparr>"

definition ready_store :: store where
  "ready_store = \<lparr>reachable = True,
     detections = Some \<lparr>columns = function_schema, rows = [], serial = 1\<rparr>\<rparr>"

subsection \<open>Ingest\<close>

text \<open>
  \<open>saved s now src objs r s'\<close>: the ingest of the batch \<open>objs\<close>, by the function handler
  or by the standalone server, is answered 200 with the stored row \<open>r\<close> and leaves the
  store \<open>s'\<close>.
\<close>

definition saved ::
  "store \<Rightarrow> nat \<Rightarrow> string option \<Rightarrow> detected_object list \<Rightarrow> row \<Rightarrow> store \<Rightarrow> bool" where
  "saved s now src objs r s' \<longleftrightarrow>
     handler s now (post_event (Body src (JArray objs))) = (reply 200 (Saved r), s')
     \<or> app_post_detections s now src (JArray objs) = ((200, Saved r), s')"



text \<open>
  The mean of the scores as a percentage, in the arithmetic of JavaScript numbers, and
  the rounding of a rational number to hundredths (half away from zero).
\<close>

definition fsum :: "jsnum list \<Rightarrow> jsnum" where
  "fsum xs = foldl fadd (Fin 0) xs"

definition mean_percentage :: "jsnum list \<Rightarrow> jsnum" where
  "mean_percentage scores = fmul (fdiv (fsum scores) (Fin (of_nat (length scores)))) (Fin 100)"


text \<open>
  The summary as the specification words it: one pair "class (count)" for each distinct
  class, in the order of first appearance, joined with ", ". \<open>entries_order\<close> is the
  order in which \<^verbatim>\<open>Object.entries\<close> lists names created in the given order.
\<close>

primrec first_seen :: "'a list \<Rightarrow> 'a list" where
  "first_seen [] = []"
| "first_seen (x # xs) = x # filter (\<lambda>y. y \<noteq> x) (first_seen xs)"

definition pair_text :: "string list \<Rightarrow> string \<Rightarrow> string" where
  "pair_text names c = c @ '' ('' @ show_nat (count_list names c) @ '')''"

definition summary :: "string list \<Rightarrow> string" where
  "summary names = join '', '' (map (pair_text names) (first_seen names))"

definition entries_order :: "string list \<Rightarrow> string list" where
  "entries_order ks =
     sort_key digits_value (filter is_array_index ks) @ filter (\<lambda>k. \<not> is_array_index k) ks"

subsection \<open>History\<close>


definition newer_first :: "row list \<Rightarrow> bool" where
  "newer_first rs \<longleftrightarrow> sorted_wrt (\<lambda>a b. created_at b \<le> created_at a) rs"

subsection \<open>Example batches\<close>

text \<open>
  The batch of the specification's examples (classes person, car, person with the
  scores 0.5, 0.9, 1.0) and the row it is stored as; a batch of five objects; a batch
  with a class that is an array index.
\<close>

definition batch3 :: "detected_object list" where
  "batch3 = [\<lparr>cls = ''person'', score = js_number (1 / 2)\<rparr>,
             \<lparr>cls = ''car'', score = js_number (9 / 10)\<rparr>,
             \<lparr>cls = ''person'', score = js_number 1\<rparr>]"

definition row3 :: row where
  "row3 = \<lparr>row_id = 1, timestamp = 7, source = ''camera'', total_objects = 3,
     unique_objects = 2, avg_confidence = Dec 8000, detected_objects = ''person (2), car (1)'',
     objects_data = JSON_stringify batch3, created_at = 7\<rparr>"

definition row_at :: "nat \<Rightarrow> nat \<Rightarrow> row" where
  "row_at k now = row3\<lparr>row_id := k, timestamp := now, created_at := now\<rparr>"

definition store3 :: store where
  "store3 = \<lparr>reachable = True,
     detections = Some \<lparr>columns = function_schema, rows = [row3], serial = 2\<rparr>\<rparr>"



definition batch_index :: "detected_object list" where
  "batch_index = [\<lparr>cls = ''person'', score = js_number 1\<rparr>, \<lparr>cls = ''7'', score = js_number 1\<rparr>]"

definition row_index :: row where
  "row_index = \<lparr>row_id = 1, timestamp = 7, source = ''camera'', total_objects = 2,
     unique_objects = 2, avg_confidence = Dec 10000, detected_objects = ''7 (1), person (1)'',
     objects_data = JSON_stringify batch_index, created_at = 7\<rparr>"

section \<open>Routing\<close>

lemma handler_options:
  "httpMethod ev = ''OPTIONS'' \<Longrightarrow> handler s now ev = (handleOptions, s)"
  by (simp add: handler_def)

lemma handler_unmatched:
  assumes "httpMethod ev \<noteq> ''OPTIONS''" and "(httpMethod ev, path ev) \<notin> set operations"
  shows "handler s now ev = (reply 404 (Failure RouteNotFound None), s)"
proof -
  have 1: "\<not> (path ev = ''/.netlify/functions/api/health'' \<and> httpMethod ev = ''GET'')"
    and 2: "\<not> (path ev = ''/.netlify/functions/api/detections'' \<and> httpMethod ev = ''POST'')"
    and 3: "\<not> (path ev = ''/.netlify/functions/api/detections'' \<and> httpMethod ev = ''GET'')"
    and 4: "\<not> (path ev = ''/.netlify/functions/api/stats'' \<and> httpMethod ev = ''GET'')"
    and 5: "\<not> (path ev = ''/.netlify/functions/api/detections'' \<and> httpMethod ev = ''DELETE'')"
    using assms(2) unfolding operations_def by auto
  show ?thesis
    unfolding handler_def Let_def using assms(1) 1 2 3 4 5 by (simp only: if_False)
qed

lemma handler_post: "handler s now (post_event b) = handlePostDetections s now b"
  by (simp add: handler_def post_event_def)

text \<open>
  Claim C9. A request of the function handler whose method and path are none of the
  five operations is answered 404 with the error "Ruta no encontrada"; a request with
  the method OPTIONS is answered 200 with the CORS headers (any origin allowed) and
  the empty body, whatever its path. The preflight test comes first in the handler, so
  the first part is about the methods other than OPTIONS. Neither answer touches the
  store.
\<close>

theorem handler_not_found_and_preflight:
  "(httpMethod ev \<noteq> ''OPTIONS'' \<and> (httpMethod ev, path ev) \<notin> set operations \<longrightarrow>
      handler s now ev =
        (\<lparr>statusCode = 404, headers = cors_headers, body = Failure RouteNotFound None\<rparr>, s))
   \<and> (httpMethod ev = ''OPTIONS'' \<longrightarrow>
      handler s now ev = (\<lparr>statusCode = 200, headers = cors_headers, body = Empty\<rparr>, s))
   \<and> map_of cors_headers ''Access-Control-Allow-Origin'' = Some ''*''"
proof (intro conjI impI)
  assume "httpMethod ev \<noteq> ''OPTIONS'' \<and> (httpMethod ev, path ev) \<notin> set operations"
  then show "handler s now ev =
      (\<lparr>statusCode = 404, headers = cors_headers, body = Failure RouteNotFound None\<rparr>, s)"
    by (simp add: handler_unmatched reply_def)
next
  assume "httpMethod ev = ''OPTIONS''"
  then show "handler s now ev = (\<lparr>statusCode = 200, headers = cors_headers, body = Empty\<rparr>, s)"
    by (simp add: handler_options handleOptions_def reply_def)
next
  show "map_of cors_headers ''Access-Control-Allow-Origin'' = Some ''*''"
    by (simp add: cors_headers_def)
qed

theorem handler_not_found_and_preflight_witness:
  "handler \<lparr>reachable = True, detections = None\<rparr> 7
     \<lparr>httpMethod = ''GET'', path = ''/api/other'', queryStringParameters = None, event_body = None\<rparr>
     = (\<lparr>statusCode = 404, headers = cors_headers, body = Failure RouteNotFound None\<rparr>,
        \<lparr>reachable = True, detections = None\<rparr>)
   \<and> handler \<lparr>reachable = True, detections = None\<rparr> 7
     \<lparr>httpMethod = ''OPTIONS'', path = ''/api/other'', queryStringParameters = None, event_body = None\<rparr>
     = (\<lparr>statusCode = 200, headers = cors_headers, body = Empty\<rparr>,
        \<lparr>reachable = True, detections = None\<rparr>)"
proof -
  let ?get = "\<lparr>httpMethod = ''GET'', path = ''/api/other'', queryStringParameters = None, event_body = None\<rparr>"
  let ?opt = "\<lparr>httpMethod = ''OPTIONS'', path = ''/api/other'', queryStringParameters = None, event_body = None\<rparr>"
  have a: "httpMethod ?get \<noteq> ''OPTIONS'' \<and> (httpMethod ?get, path ?get) \<notin> set operations"
    by (simp add: operations_def)
  have b: "httpMethod ?opt = ''OPTIONS''" by simp
  from a b show ?thesis
    using handler_not_found_and_preflight [of ?get "\<lparr>reachable = True, detections = None\<rparr>" 7]
      handler_not_found_and_preflight [of ?opt "\<lparr>reachable = True, detections = None\<rparr>" 7]
    by blast
qed

section \<open>Validation of the batch\<close>



text \<open>
  Claim C10. When the member \<^verbatim>\<open>objects\<close> is truthy, is not an array, and its
  \<^verbatim>\<open>length\<close> is not the number 0 (a number, \<^verbatim>\<open>true\<close>, a non-empty string, a JSON
  object without a member \<^verbatim>\<open>length\<close> equal to 0), the validation test lets it pass,
  the call of \<^verbatim>\<open>objects.map\<close> throws a TypeError, and the answer is 500 with the
  error "Error guardando en base de datos", not the 400 of a validation error. The
  store is left as it was.
\<close>

theorem non_array_objects_fail:
  "truthy objects \<Longrightarrow> \<forall>objs. objects \<noteq> JArray objs \<Longrightarrow> js_length objects \<noteq> JNum (Fin 0) \<Longrightarrow>
     \<not> no_objects objects
     \<and> handler s now (post_event (Body src objects))
         = (reply 500 (Failure SaveFailed (Some TypeError)), s)
     \<and> app_post_detections s now src objects
         = ((500, Failure SaveFailed (Some TypeError)), s)"
  by (cases objects)
     (auto simp: handler_post handlePostDetections_def app_post_detections_def no_objects_def)

theorem non_array_objects_fail_witness:
  "truthy (JObj [(''person'', JNum (Fin 1))])
   \<and> \<not> no_objects (JObj [(''person'', JNum (Fin 1))])
   \<and> handler \<lparr>reachable = True, detections = None\<rparr> 7
        (post_event (Body None (JObj [(''person'', JNum (Fin 1))])))
       = (reply 500 (Failure SaveFailed (Some TypeError)), \<lparr>reachable = True, detections = None\<rparr>)
   \<and> app_post_detections \<lparr>reachable = True, detections = None\<rparr> 7 None
        (JObj [(''person'', JNum (Fin 1))])
       = ((500, Failure SaveFailed (Some TypeError)), \<lparr>reachable = True, detections = None\<rparr>)"
  using non_array_objects_fail [of "JObj [(''person'', JNum (Fin 1))]"
      "\<lparr>reachable = True, detections = None\<rparr>" 7 None]
  by simp

section \<open>Arithmetic of numbers\<close>

lemma floor_rat_numeral [simp]:
  "\<lfloor>(numeral a / numeral b :: rat)\<rfloor> = numeral a div numeral b"
  using floor_divide_of_int_eq [of "numeral a" "numeral b", where ?'a = rat] by simp

lemma ceiling_rat_numeral [simp]:
  "\<lceil>(numeral a / numeral b :: rat)\<rceil> = - (- numeral a div numeral b)"
  using ceiling_divide_eq_div [of "numeral a" "numeral b", where ?'a = rat] by simp

lemmas float_eval = js_number_def round_double_def ilog2_def pow2_def round_half_even_def
  Let_def compute_bitlen hundredths_def

lemma avgConfidence_mean: "avgConfidence objs = mean_percentage (map score objs)"
  by (simp add: avgConfidence_def mean_percentage_def fsum_def totalObjects_def foldl_map)

lemma mean_example: "mean_percentage [js_number (1 / 2), js_number (9 / 10), js_number 1] = Fin 80"
  by (simp add: mean_percentage_def fsum_def float_eval)


text \<open>
  The rounding is the one of binary64: \<open>ilog2\<close> is the binary exponent, and the result
  of \<open>round_double\<close> is a multiple of the unit in the last place of its argument, with
  a significand of at most 53 bits, no farther from the argument than half that unit.
\<close>

lemma pow2_nat: "0 \<le> k \<Longrightarrow> pow2 k = 2 ^ nat k"
  by (simp add: pow2_def)

lemma pow2_neg: "0 \<le> k \<Longrightarrow> pow2 (- k) = 1 / 2 ^ nat k"
  by (auto simp: pow2_def)

lemma ilog2_bounds:
  assumes "x \<noteq> 0"
  shows "pow2 (ilog2 x) \<le> \<bar>x\<bar> \<and> \<bar>x\<bar> < pow2 (ilog2 x + 1)"
proof (cases "1 \<le> \<bar>x\<bar>")
  case True
  define n where "n = \<lfloor>\<bar>x\<bar>\<rfloor>"
  have n: "0 < n" using True by (simp add: n_def)
  have b: "2 ^ nat (bitlen n - 1) \<le> n" "n < 2 ^ nat (bitlen n)"
    using bitlen_bounds [OF n] by simp_all
  have pos: "1 \<le> bitlen n" using n by (simp add: bitlen_alt_def)
  have e: "ilog2 x = bitlen n - 1" using True by (simp add: ilog2_def n_def)
  have "(2::rat) ^ nat (bitlen n - 1) \<le> of_int n"
    using b(1) by (simp only: numeral_power_le_of_int_cancel_iff)
  also have "\<dots> \<le> \<bar>x\<bar>" by (simp add: n_def)
  finally have lo: "pow2 (ilog2 x) \<le> \<bar>x\<bar>"
    using pos by (simp add: e pow2_nat)
  have "n + 1 \<le> 2 ^ nat (bitlen n)" using b(2) by simp
  then have "(of_int (n + 1) :: rat) \<le> 2 ^ nat (bitlen n)"
    by (simp only: of_int_le_numeral_power_cancel_iff)
  moreover have "\<bar>x\<bar> < of_int (n + 1)" unfolding n_def by linarith
  ultimately have "\<bar>x\<bar> < 2 ^ nat (bitlen n)" by linarith
  then have hi: "\<bar>x\<bar> < pow2 (ilog2 x + 1)"
    using pos by (simp add: e pow2_nat)
  from lo hi show ?thesis ..
next
  case False
  define y where "y = 1 / \<bar>x\<bar>"
  define c where "c = \<lceil>y\<rceil>"
  define k where "k = bitlen (c - 1)"
  have x: "0 < \<bar>x\<bar>" "\<bar>x\<bar> < 1" using assms False by simp_all
  then have y: "1 < y" by (simp add: y_def)
  then have c: "0 < c - 1" unfolding c_def by linarith
  have b: "2 ^ nat (k - 1) \<le> c - 1" "c - 1 < 2 ^ nat k"
    using bitlen_bounds [OF c] by (simp_all add: k_def)
  have k: "1 \<le> k" using c by (simp add: k_def bitlen_alt_def)
  have e: "ilog2 x = - k" using False by (simp add: ilog2_def k_def c_def y_def)
  have "(of_int (c - 1) :: rat) < y" unfolding c_def by linarith
  moreover have "(2 :: rat) ^ nat (k - 1) \<le> of_int (c - 1)"
    using b(1) by (simp only: numeral_power_le_of_int_cancel_iff)
  ultimately have 1: "2 ^ nat (k - 1) < y" by linarith
  have "c \<le> 2 ^ nat k" using b(2) by simp
  then have "(of_int c :: rat) \<le> 2 ^ nat k" by simp
  moreover have "y \<le> of_int c" unfolding c_def by linarith
  ultimately have 2: "y \<le> 2 ^ nat k" by linarith
  have xy: "\<bar>x\<bar> = 1 / y" by (simp add: y_def)
  have ypos: "0 < y" using y by simp
  have lo: "pow2 (ilog2 x) \<le> \<bar>x\<bar>"
    using 2 ypos k by (simp add: e pow2_neg xy field_simps)
  have "ilog2 x + 1 = - (k - 1)" by (simp add: e)
  then have p: "pow2 (ilog2 x + 1) = 1 / 2 ^ nat (k - 1)"
    using k pow2_neg [of "k - 1"] by simp
  have "1 / y < 1 / 2 ^ nat (k - 1)"
    using 1 ypos by (intro divide_strict_left_mono) simp_all
  then have hi: "\<bar>x\<bar> < pow2 (ilog2 x + 1)"
    by (simp only: xy p)
  from lo hi show ?thesis ..
qed

lemma pow2_pos [simp]: "0 < pow2 k"
  by (simp add: pow2_def)

lemma pow2_add: "pow2 (a + b) = pow2 a * pow2 b"
proof -
  have "pow2 k = 2 powi k" for k
    by (simp add: pow2_def power_int_def field_simps)
  then show ?thesis by (simp add: power_int_add)
qed

lemma round_half_even_le: "x \<le> of_int M \<Longrightarrow> round_half_even x \<le> M"
proof -
  assume a: "x \<le> of_int M"
  then have f: "\<lfloor>x\<rfloor> \<le> M" by (simp add: floor_le_iff)
  show ?thesis
  proof (cases "\<lfloor>x\<rfloor> = M")
    case True
    with a have "x - of_int \<lfloor>x\<rfloor> < 1 / 2" by linarith
    with True show ?thesis by (simp add: round_half_even_def Let_def)
  next
    case False
    with f have "\<lfloor>x\<rfloor> + 1 \<le> M" by simp
    with f show ?thesis by (simp add: round_half_even_def Let_def)
  qed
qed


lemma round_half_even_near: "\<bar>of_int (round_half_even y) - y\<bar> \<le> 1 / 2"
proof -
  have a: "of_int \<lfloor>y\<rfloor> \<le> y" "y < of_int \<lfloor>y\<rfloor> + 1" by linarith+
  consider "y - of_int \<lfloor>y\<rfloor> < 1 / 2" | "1 / 2 < y - of_int \<lfloor>y\<rfloor>"
    | "y - of_int \<lfloor>y\<rfloor> = 1 / 2" by linarith
  then show ?thesis
  proof cases
    case 1
    then have "round_half_even y = \<lfloor>y\<rfloor>" by (simp add: round_half_even_def Let_def)
    with 1 a show ?thesis by simp
  next
    case 2
    then have "round_half_even y = \<lfloor>y\<rfloor> + 1" by (simp add: round_half_even_def Let_def)
    with 2 a show ?thesis by simp
  next
    case 3
    then have "round_half_even y = \<lfloor>y\<rfloor> \<or> round_half_even y = \<lfloor>y\<rfloor> + 1"
      by (simp add: round_half_even_def Let_def)
    with 3 show ?thesis by auto
  qed
qed

lemma round_half_even_ge: "of_int M \<le> x \<Longrightarrow> M \<le> round_half_even x"
proof -
  assume "of_int M \<le> x"
  then have "M \<le> \<lfloor>x\<rfloor>" by (simp add: le_floor_iff)
  then show ?thesis by (simp add: round_half_even_def Let_def)
qed

lemma round_double_grid:
  assumes "x \<noteq> 0"
  defines "q \<equiv> pow2 (max (ilog2 x) (- 1022) - 52)"
  shows "\<exists>m. \<bar>m\<bar> \<le> 2 ^ 53 \<and> \<bar>of_int m * q - x\<bar> \<le> q / 2
           \<and> round_double x =
               (if pow2 1024 \<le> of_int m * q then PosInf
                else if of_int m * q \<le> - pow2 1024 then NegInf else Fin (of_int m * q))"
proof -
  define e where "e = max (ilog2 x) (- 1022)"
  define m where "m = round_half_even (x / q)"
  have q: "q = pow2 (e - 52)" "0 < q" by (simp_all add: q_def e_def)
  have "\<bar>x\<bar> < pow2 (e + 1)"
  proof -
    have "\<bar>x\<bar> < pow2 (ilog2 x + 1)" using ilog2_bounds [OF assms(1)] by simp
    also have "\<dots> \<le> pow2 (e + 1)"
    proof -
      have "pow2 (e + 1) = pow2 ((ilog2 x + 1) + (e - ilog2 x))"
        by (rule arg_cong [of _ _ pow2]) simp
      also have "\<dots> = pow2 (ilog2 x + 1) * pow2 (e - ilog2 x)" by (rule pow2_add)
      finally have "pow2 (e + 1) = pow2 (ilog2 x + 1) * pow2 (e - ilog2 x)" .
      moreover have "1 \<le> pow2 (e - ilog2 x)"
        by (simp add: pow2_def e_def)
      ultimately show ?thesis by simp
    qed
    finally show ?thesis .
  qed
  moreover have "pow2 (e + 1) = 2 ^ 53 * q"
  proof -
    have "pow2 (e + 1) = pow2 (53 + (e - 52))"
      by (rule arg_cong [of _ _ pow2]) simp
    also have "\<dots> = pow2 53 * pow2 (e - 52)" by (rule pow2_add)
    also have "pow2 53 = 2 ^ 53" by (simp add: pow2_def)
    finally show ?thesis by (simp only: q(1))
  qed
  ultimately have "\<bar>x\<bar> / q < 2 ^ 53" using q(2) by (simp add: divide_less_eq)
  then have "\<bar>x / q\<bar> < 2 ^ 53" using q(2) by simp
  then have "x / q \<le> 2 ^ 53" "- (2 ^ 53) \<le> x / q"
    using abs_ge_self [of "x / q"] abs_ge_minus_self [of "x / q"] by linarith+
  then have c: "x / q \<le> of_int (2 ^ 53)" "of_int (- (2 ^ 53)) \<le> x / q"
    by simp_all
  have "m \<le> 2 ^ 53" "- (2 ^ 53) \<le> m"
    unfolding m_def using round_half_even_le [OF c(1)] round_half_even_ge [OF c(2)] by simp_all
  then have 1: "\<bar>m\<bar> \<le> 2 ^ 53" by simp
  have "of_int m * q - x = (of_int m - x / q) * q"
    using q(2) by (simp add: left_diff_distrib)
  then have "\<bar>of_int m * q - x\<bar> = \<bar>of_int m - x / q\<bar> * \<bar>q\<bar>"
    by (simp only: abs_mult)
  also have "\<dots> = \<bar>of_int m - x / q\<bar> * q"
    using q(2) by simp
  also have "\<dots> \<le> (1 / 2) * q"
    using round_half_even_near [of "x / q"] q(2) unfolding m_def
    by (intro mult_right_mono) simp_all
  finally have 2: "\<bar>of_int m * q - x\<bar> \<le> q / 2" by simp
  have 3: "round_double x =
      (if pow2 1024 \<le> of_int m * q then PosInf
       else if of_int m * q \<le> - pow2 1024 then NegInf else Fin (of_int m * q))"
    using assms(1) by (simp add: round_double_def Let_def m_def q_def)
  from 1 2 3 show ?thesis by blast
qed








section \<open>Ingest\<close>

lemma no_objects_JArray [simp]: "no_objects (JArray objs) \<longleftrightarrow> objs = []"
  by (simp add: no_objects_def)

lemma reply_eq_iff [simp]: "reply c b = reply c' b' \<longleftrightarrow> c = c' \<and> b = b'"
  by (simp add: reply_def)

lemma saved_insert:
  "saved s now src objs r s' \<longleftrightarrow>
     objs \<noteq> [] \<and>
     pg_insert s now (source_or_camera src) (totalObjects objs) (uniqueObjects objs)
        (toFixed2 (avgConfidence objs)) (detectedObjectsText objs) (JSON_stringify objs) = Inr (r, s')"
  by (auto simp: saved_def handler_post handlePostDetections_def app_post_detections_def
       split: sum.splits)

lemma pg_insert_Inr:
  "pg_insert s now v1 v2 v3 v4 v5 v6 = Inr (r, s') \<longleftrightarrow>
     reachable s \<and> (\<exists>t src tot uniq avg txt. detections s = Some t
        \<and> set insert_columns \<subseteq> set (columns t)
        \<and> varchar 50 v1 = Some src \<and> int4 v2 = Some tot \<and> int4 v3 = Some uniq
        \<and> decimal_5_2 v4 = Some avg \<and> varchar 500 v5 = Some txt
        \<and> r = \<lparr>row_id = serial t, timestamp = now, source = src, total_objects = tot,
                 unique_objects = uniq, avg_confidence = avg, detected_objects = txt,
                 objects_data = v6, created_at = now\<rparr>
        \<and> s' = s\<lparr>detections := Some (t\<lparr>rows := rows t @ [r], serial := serial t + 1\<rparr>)\<rparr>)"
  unfolding pg_insert_def Let_def
  by (auto split: option.splits)

lemma int4_Some: "int4 n = Some v \<Longrightarrow> v = int n"
  by (simp add: int4_def split: if_splits)


lemma text_example: "detectedObjectsText batch3 = ''person (2), car (1)''"
  by (simp add: detectedObjectsText_def batch3_def objectCounts_def increment_def
      native_function_def Object_entries_def is_array_index_def is_digit_def show_nat.simps digit_def)

lemma saved_example:
  "saved ready_store 7 None batch3 row3
     (ready_store\<lparr>detections := Some \<lparr>columns = function_schema, rows = [row3], serial = 2\<rparr>\<rparr>)"
  unfolding saved_insert pg_insert_Inr
  by (simp add: avgConfidence_mean text_example)
     (simp add: batch3_def mean_example ready_store_def row3_def insert_columns_def function_schema_def
       source_or_camera_def varchar_def int4_def totalObjects_def uniqueObjects_def hundredths_def)









section \<open>The summary of the classes\<close>

lemma set_first_seen [simp]: "set (first_seen xs) = set xs"
  by (induction xs) auto

lemma distinct_first_seen [simp]: "distinct (first_seen xs)"
  by (induction xs) auto

lemma first_seen_snoc:
  "first_seen (xs @ [x]) = (if x \<in> set xs then first_seen xs else first_seen xs @ [x])"
  by (induction xs) auto

lemma map_of_keys:
  "map_of (map (\<lambda>c. (c, f c)) ks) x = (if x \<in> set ks then Some (f x) else None)"
  by (induction ks) auto

lemma assign_present:
  "x \<in> set ks \<Longrightarrow> distinct ks \<Longrightarrow>
     assign (map (\<lambda>c. (c, f c)) ks) x v = map (\<lambda>c. (c, if c = x then v else f c)) ks"
  by (induction ks) auto

lemma assign_absent:
  "x \<notin> set ks \<Longrightarrow> assign (map (\<lambda>c. (c, f c)) ks) x v = map (\<lambda>c. (c, f c)) ks @ [(x, v)]"
  by (induction ks) auto


lemma objectCounts_snoc: "objectCounts (names @ [x]) = increment (objectCounts names) x"
  by (simp add: objectCounts_def)

lemma objectCounts_plain:
  "\<forall>c \<in> set names. \<not> inherited c \<Longrightarrow>
     objectCounts names = map (\<lambda>c. (c, Count (count_list names c))) (first_seen names)"
proof (induction names rule: rev_induct)
  case Nil
  show ?case by (simp add: objectCounts_def)
next
  case (snoc x names)
  then have IH: "objectCounts names = map (\<lambda>c. (c, Count (count_list names c))) (first_seen names)"
    and x: "\<not> inherited x"
    by simp_all
  show ?case
  proof (cases "x \<in> set names")
    case True
    then have "increment (objectCounts names) x
        = map (\<lambda>c. (c, if c = x then Count (count_list names x + 1) else Count (count_list names c)))
            (first_seen names)"
      by (simp add: IH increment_def map_of_keys assign_present)
    also have "\<dots> = map (\<lambda>c. (c, Count (count_list (names @ [x]) c))) (first_seen names)"
      by (rule map_cong) auto
    finally show ?thesis
      using True by (simp add: objectCounts_snoc first_seen_snoc)
  next
    case False
    from x have "x \<noteq> ''__proto__''" and "native_function x = None"
      by (simp_all add: inherited_def)
    with False have "increment (objectCounts names) x
        = map (\<lambda>c. (c, Count (count_list names c))) (first_seen names) @ [(x, Count 1)]"
      by (simp add: IH increment_def map_of_keys assign_absent)
    also have "map (\<lambda>c. (c, Count (count_list names c))) (first_seen names)
        = map (\<lambda>c. (c, Count (count_list (names @ [x]) c))) (first_seen names)"
      using False by (intro map_cong) auto
    finally show ?thesis
      using False by (simp add: objectCounts_snoc first_seen_snoc)
  qed
qed

lemma insort_key_keys:
  "insort_key (\<lambda>p. h (fst p)) (c, f c) (map (\<lambda>c. (c, f c)) ks)
     = map (\<lambda>c. (c, f c)) (insort_key h c ks)"
  by (induction ks) auto

lemma sort_key_keys:
  "sort_key (\<lambda>p. h (fst p)) (map (\<lambda>c. (c, f c)) ks) = map (\<lambda>c. (c, f c)) (sort_key h ks)"
  by (induction ks) (auto simp: insort_key_keys)

lemma Object_entries_keys:
  "Object_entries (map (\<lambda>c. (c, f c)) ks) = map (\<lambda>c. (c, f c)) (entries_order ks)"
  by (simp add: Object_entries_def entries_order_def filter_map o_def sort_key_keys)

lemma detectedObjectsText_plain:
  assumes "\<forall>c \<in> set (map cls objs). \<not> inherited c"
  shows "detectedObjectsText objs
     = join '', '' (map (pair_text (map cls objs)) (entries_order (first_seen (map cls objs))))"
proof -
  have "pair_text (map cls objs) = (\<lambda>c. entry_text (c, Count (count_list (map cls objs) c)))"
    by (rule ext) (simp add: pair_text_def)
  then show ?thesis
    unfolding detectedObjectsText_def objectCounts_plain [OF assms] Object_entries_keys
    by (simp add: o_def)
qed

lemma entries_order_plain:
  "\<forall>k \<in> set ks. \<not> is_array_index k \<Longrightarrow> entries_order ks = ks"
  by (simp add: entries_order_def filter_empty_conv [THEN iffD2] filter_id_conv [THEN iffD2])


lemma join_last:
  "xs \<noteq> [] \<Longrightarrow> \<forall>x \<in> set xs. x \<noteq> [] \<and> last x = c \<Longrightarrow>
     join sep xs \<noteq> [] \<and> last (join sep xs) = c"
  by (induction sep xs rule: join.induct) auto

lemma entry_text_last: "entry_text p \<noteq> [] \<and> last (entry_text p) = CHR '')''"
  by (cases p rule: entry_text.cases) auto

lemma detectedObjectsText_last:
  "detectedObjectsText objs = [] \<or> last (detectedObjectsText objs) = CHR '')''"
proof (cases "Object_entries (objectCounts (map cls objs)) = []")
  case True
  then show ?thesis by (simp add: detectedObjectsText_def)
next
  case False
  then show ?thesis
    unfolding detectedObjectsText_def
    using join_last [of "map entry_text (Object_entries (objectCounts (map cls objs)))" "CHR '')''" "'', ''"]
    by (simp add: entry_text_last)
qed

lemma varchar_closed:
  assumes "varchar n t = Some txt" and "t = [] \<or> last t = CHR '')''"
  shows "txt = t"
proof (cases "length t \<le> n")
  case True
  with assms(1) show ?thesis by (simp add: varchar_def)
next
  case False
  then have "drop n t \<noteq> []" and "last (drop n t) = last t" by simp_all
  with assms(2) False have "last (drop n t) = CHR '')''" by auto
  with \<open>drop n t \<noteq> []\<close> have "CHR '')'' \<in> set (drop n t)"
    using last_in_set by metis
  then have "\<not> list_all (\<lambda>c. c = CHR '' '') (drop n t)"
    by (auto simp: list_all_iff)
  with assms(1) False show ?thesis by (simp add: varchar_def)
qed

lemma saved_text: "saved s now src objs r s' \<Longrightarrow> detected_objects r = detectedObjectsText objs"
  unfolding saved_insert pg_insert_Inr
  using varchar_closed [OF _ detectedObjectsText_last] by auto

lemma entries_order_set: "set (entries_order ks) = set ks"
  by (auto simp: entries_order_def)

lemma entries_order_distinct: "distinct ks \<Longrightarrow> distinct (entries_order ks)"
  by (auto simp: entries_order_def)

lemma plain_names:
  "\<not> inherited ''person''" "\<not> inherited ''car''"
  "\<not> is_array_index ''person''" "\<not> is_array_index ''car''"
  by (simp_all add: inherited_def native_function_def is_array_index_def is_digit_def)

lemma summary_example: "summary [''person'', ''car'', ''person''] = ''person (2), car (1)''"
  by (simp add: summary_def pair_text_def show_nat.simps digit_def)

text \<open>
  Claim C2, amended. When the ingest of a non-empty batch stores a row and no class of
  the batch is the name of a member of \<^verbatim>\<open>Object.prototype\<close>, the row's
  \<^verbatim>\<open>detected_objects\<close> is the list of the pairs "class (count)", one for each
  distinct class, joined with ", ": the classes that are array indices (such as "7")
  come first, in ascending numeric order, and the other classes follow in the order of
  their first appearance. When no class is an array index the order is the order of
  first appearance throughout; for the classes person, car, person the text is
  "person (2), car (1)".
\<close>

theorem ingest_summary:
  assumes "objs \<noteq> []" and "saved s now src objs r s'"
    and "\<forall>c \<in> set (map cls objs). \<not> inherited c"
  shows "detected_objects r
           = join '', '' (map (pair_text (map cls objs)) (entries_order (first_seen (map cls objs))))
       \<and> set (entries_order (first_seen (map cls objs))) = set (map cls objs)
       \<and> distinct (entries_order (first_seen (map cls objs)))
       \<and> ((\<forall>c \<in> set (map cls objs). \<not> is_array_index c) \<longrightarrow>
             detected_objects r = summary (map cls objs))
       \<and> (map cls objs = [''person'', ''car'', ''person''] \<longrightarrow>
             detected_objects r = ''person (2), car (1)'')"
proof -
  let ?names = "map cls objs"
  have 1: "detected_objects r = join '', '' (map (pair_text ?names) (entries_order (first_seen ?names)))"
    using saved_text [OF assms(2)] detectedObjectsText_plain [OF assms(3)] by simp
  have 2: "detected_objects r = summary ?names" if "\<forall>c \<in> set ?names. \<not> is_array_index c"
    using 1 that entries_order_plain [of "first_seen ?names"] by (simp add: summary_def)
  have 3: "detected_objects r = ''person (2), car (1)''" if "?names = [''person'', ''car'', ''person'']"
  proof -
    have "\<forall>c \<in> set [''person'', ''car'', ''person'']. \<not> is_array_index c"
      using plain_names by simp
    with 2 that have "detected_objects r = summary [''person'', ''car'', ''person'']"
      by metis
    then show ?thesis by (simp only: summary_example)
  qed
  from 1 2 3 show ?thesis
    by (simp add: entries_order_set entries_order_distinct del: set_map)
qed

theorem ingest_summary_witness:
  "batch3 \<noteq> []
   \<and> saved ready_store 7 None batch3 row3
        (ready_store\<lparr>detections := Some \<lparr>columns = function_schema, rows = [row3], serial = 2\<rparr>\<rparr>)
   \<and> \<not> inherited ''person'' \<and> \<not> inherited ''car''
   \<and> \<not> is_array_index ''person'' \<and> \<not> is_array_index ''car''
   \<and> map cls batch3 = [''person'', ''car'', ''person'']
   \<and> detected_objects row3 = summary (map cls batch3)
   \<and> summary (map cls batch3) = ''person (2), car (1)''"
proof -
  have a: "batch3 \<noteq> []" by (simp add: batch3_def)
  have b: "map cls batch3 = [''person'', ''car'', ''person'']" by (simp add: batch3_def)
  have c: "\<forall>c \<in> set (map cls batch3). \<not> inherited c"
    and d: "\<forall>c \<in> set (map cls batch3). \<not> is_array_index c"
    unfolding b using plain_names by simp_all
  from ingest_summary [OF a saved_example c]
  have "(\<forall>c \<in> set (map cls batch3). \<not> is_array_index c) \<longrightarrow>
          detected_objects row3 = summary (map cls batch3)"
    by blast
  with d have e: "detected_objects row3 = summary (map cls batch3)" by blast
  have f: "summary (map cls batch3) = ''person (2), car (1)''"
    by (simp only: b summary_example)
  from a b e f saved_example plain_names show ?thesis by blast
qed

lemma text_index: "detectedObjectsText batch_index = ''7 (1), person (1)''"
  by (simp add: detectedObjectsText_def batch_index_def objectCounts_def increment_def
      native_function_def Object_entries_def is_array_index_def is_digit_def digits_value_def
      show_nat.simps digit_def)

text \<open>
  Claim C2 as stated fails: the batch with the classes person and 7 is stored with the
  summary "7 (1), person (1)", whereas the order of first appearance gives
  "person (1), 7 (1)". A class named constructor is summarised with the text of the
  function \<^verbatim>\<open>Object\<close> in place of its count.
\<close>

theorem ingest_summary_counterexample:
  "saved ready_store 7 None batch_index row_index
     (ready_store\<lparr>detections := Some \<lparr>columns = function_schema, rows = [row_index], serial = 2\<rparr>\<rparr>)
   \<and> map cls batch_index = [''person'', ''7'']
   \<and> detected_objects row_index = ''7 (1), person (1)''
   \<and> summary (map cls batch_index) = ''person (1), 7 (1)''
   \<and> detected_objects row_index \<noteq> summary (map cls batch_index)
   \<and> detectedObjectsText [\<lparr>cls = ''constructor'', score = js_number 1\<rparr>]
       = ''constructor (function Object() { [native code] }1)''
   \<and> summary [''constructor''] = ''constructor (1)''"
proof -
  have 1: "saved ready_store 7 None batch_index row_index
     (ready_store\<lparr>detections := Some \<lparr>columns = function_schema, rows = [row_index], serial = 2\<rparr>\<rparr>)"
    unfolding saved_insert pg_insert_Inr
    by (simp add: text_index)
       (simp add: batch_index_def avgConfidence_def float_eval ready_store_def row_index_def
         insert_columns_def function_schema_def source_or_camera_def varchar_def int4_def
         totalObjects_def uniqueObjects_def)
  have 2: "summary (map cls batch_index) = ''person (1), 7 (1)''"
    by (simp add: batch_index_def summary_def pair_text_def show_nat.simps digit_def)
  have 3: "detectedObjectsText [\<lparr>cls = ''constructor'', score = js_number 1\<rparr>]
       = ''constructor (function Object() { [native code] }1)''"
    by (simp add: detectedObjectsText_def objectCounts_def increment_def
      native_function_def Object_entries_def is_array_index_def is_digit_def)
  have 4: "summary [''constructor''] = ''constructor (1)''"
    by (simp add: summary_def pair_text_def show_nat.simps digit_def)
  from 1 2 3 4 show ?thesis
    by (simp add: row_index_def batch_index_def)
qed

lemma handler_get:
  "handler s now (get_event q) = handleGetDetections s (case q of Some q' \<Rightarrow> q' | None \<Rightarrow> [])"
  by (simp add: handler_def get_event_def)

lemma initDatabase_fresh: "initDatabase fresh_store = ready_store"
  by (simp add: initDatabase_def pg_create_table_def fresh_store_def ready_store_def)

lemma server_initDatabase_fresh:
  "server_initDatabase fresh_store
     = \<lparr>reachable = True, detections = Some \<lparr>columns = server_schema, rows = [], serial = 1\<rparr>\<rparr>"
  by (simp add: server_initDatabase_def pg_create_table_def fresh_store_def)

lemma saved_handler:
  "saved s now src objs r s' \<longleftrightarrow>
     handler s now (post_event (Body src (JArray objs))) = (reply 200 (Saved r), s')"
  unfolding saved_insert
  by (auto simp: handler_post handlePostDetections_def split: sum.splits)

section \<open>The two entry points\<close>

text \<open>
  On one and the same store the route handlers of the standalone server send what the
  handlers of the function send, and leave the same store.
\<close>

lemma entry_points_agree:
  "app_get_health s now = sent (handleHealth s now)"
  "app_post_detections s now src objects = sent (handlePostDetections s now (Body src objects))"
  "app_get_detections s None = sent (handleGetDetections s [])"
  "app_get_detections s (Some l) = sent (handleGetDetections s [(''limit'', l)])"
  "app_get_stats s = sent (handleStats s)"
  "app_delete_detections s = sent (handleDeleteDetections s)"
  by (auto simp: sent_def reply_def app_get_health_def handleHealth_def
      app_post_detections_def handlePostDetections_def app_get_detections_def
      handleGetDetections_def app_get_stats_def handleStats_def app_delete_detections_def
      handleDeleteDetections_def split: sum.splits jsval.splits)

text \<open>
  Claim C5. The two entry points do not create the same table: the schema of the
  standalone server has no column \<^verbatim>\<open>detected_objects\<close>, which its own INSERT and
  SELECT statements name. On a database without the table, after initialisation, the
  standalone server answers 500 to an ingest and to a history request and stores
  nothing, where the function handler answers 200 and stores the row.
\<close>

theorem schema_divergence:
  "server_initDatabase fresh_store \<noteq> initDatabase fresh_store
   \<and> app_post_detections (server_initDatabase fresh_store) 7 None (JArray batch3)
       = ((500, Failure SaveFailed (Some (Database UndefinedColumn))), server_initDatabase fresh_store)
   \<and> handler (initDatabase fresh_store) 7 (post_event (Body None (JArray batch3)))
       = (reply 200 (Saved row3), store3)
   \<and> app_get_detections (server_initDatabase fresh_store) None
       = ((500, Failure ReadFailed (Some (Database UndefinedColumn))), server_initDatabase fresh_store)
   \<and> handler (initDatabase fresh_store) 7 (get_event None) = (reply 200 (Listing 0 []), initDatabase fresh_store)"
proof -
  have 1: "server_initDatabase fresh_store \<noteq> initDatabase fresh_store"
    by (simp add: initDatabase_fresh server_initDatabase_fresh ready_store_def
        server_schema_def function_schema_def)
  have 2: "app_post_detections (server_initDatabase fresh_store) 7 None (JArray batch3)
       = ((500, Failure SaveFailed (Some (Database UndefinedColumn))), server_initDatabase fresh_store)"
    by (simp add: server_initDatabase_fresh app_post_detections_def pg_insert_def
        insert_columns_def server_schema_def)
       (simp add: batch3_def)
  have 3: "handler (initDatabase fresh_store) 7 (post_event (Body None (JArray batch3)))
       = (reply 200 (Saved row3), store3)"
    using saved_example by (simp add: saved_handler initDatabase_fresh store3_def ready_store_def)
  have 4: "app_get_detections (server_initDatabase fresh_store) None
       = ((500, Failure ReadFailed (Some (Database UndefinedColumn))), server_initDatabase fresh_store)"
    by (simp add: server_initDatabase_fresh app_get_detections_def pg_select_recent_def
        select_columns_def server_schema_def)
  have 5: "handler (initDatabase fresh_store) 7 (get_event None)
       = (reply 200 (Listing 0 []), initDatabase fresh_store)"
    by (simp add: handler_get initDatabase_fresh ready_store_def handleGetDetections_def
        pg_select_recent_def select_columns_def function_schema_def limit_or_50_def
        int8in_def is_space_def is_digit_def digits_value_def newest_first_def)
  from 1 2 3 4 5 show ?thesis by blast
qed

section \<open>History\<close>

lemmas int8in_eval = int8in_def is_space_def is_digit_def digits_value_def Let_def


lemma length_newest_first [simp]: "length (newest_first rs) = length rs"
  by (simp add: newest_first_def)


lemma limit_or_50_simps [simp]:
  "limit_or_50 None = ''50''" "limit_or_50 (Some []) = ''50''"
  "l \<noteq> [] \<Longrightarrow> limit_or_50 (Some l) = l"
  by (simp_all add: limit_or_50_def)





lemma has_table_select:
  "has_table s t \<Longrightarrow> reachable s \<and> detections s = Some t \<and> set select_columns \<subseteq> set (columns t)"
  by (simp add: has_table_def select_columns_def function_schema_def)


lemma int8in_Nil [simp]: "int8in [] = None"
  by (simp add: int8in_def)

lemma set_newest_first [simp]: "set (newest_first rs) = set rs"
  by (simp add: newest_first_def)

lemma newer_first_newest_first: "newer_first (newest_first rs)"
proof -
  have "sorted (map created_at (sort_key created_at rs))" by simp
  then have "sorted_wrt (\<lambda>a b. created_at a \<le> created_at b) (sort_key created_at rs)"
    by (simp only: sorted_map)
  then show ?thesis
    by (simp add: newer_first_def newest_first_def sorted_wrt_rev)
qed

lemma newer_first_take: "newer_first rs \<Longrightarrow> newer_first (take n rs)"
  unfolding newer_first_def by (rule sorted_wrt_take)

lemma newer_first_split:
  assumes "newer_first rs" and "r' \<in> set (take n rs)" and "r \<in> set (drop n rs)"
  shows "created_at r \<le> created_at r'"
proof -
  have "sorted_wrt (\<lambda>a b. created_at b \<le> created_at a) (take n rs @ drop n rs)"
    using assms(1) by (simp add: newer_first_def)
  with assms(2,3) show ?thesis
    unfolding sorted_wrt_append by blast
qed

lemma insort_key_snoc:
  "f a \<le> f x \<Longrightarrow> insort_key f a (ys @ [x]) = insort_key f a ys @ [x]"
  by (induction ys) auto

lemma sort_key_snoc:
  "\<forall>y \<in> set xs. f y \<le> f x \<Longrightarrow> sort_key f (xs @ [x]) = sort_key f xs @ [x]"
  by (induction xs) (auto simp: insort_key_snoc)

lemma saved_step:
  assumes "saved s now src objs r s'" and "has_table s t"
  shows "has_table s' (t\<lparr>rows := rows t @ [r], serial := serial t + 1\<rparr>)
       \<and> created_at r = now \<and> total_objects r = int (length objs)"
  using assms unfolding saved_insert pg_insert_Inr has_table_def
  by (auto simp: totalObjects_def dest: int4_Some)

lemma int8in_2: "int8in ''2'' = Some 2"
  by (simp add: int8in_eval)

lemma handler_limit:
  assumes "has_table s t" and "int8in l = Some n" and "0 \<le> n"
  shows "handler s now (get_event (Some [(''limit'', l)]))
     = (reply 200 (Listing (length (take (nat n) (newest_first (rows t))))
                           (take (nat n) (newest_first (rows t)))), s)"
proof -
  from assms(2) have "l \<noteq> []" by auto
  then show ?thesis
    using has_table_select [OF assms(1)] assms(2,3)
    by (simp add: handler_get handleGetDetections_def pg_select_recent_def)
qed

lemma digit_cases: "d < 10 \<Longrightarrow> is_digit (digit d) \<and> (of_char (digit d) :: int) = 48 + int d"
proof -
  assume "d < 10"
  then have "d \<in> {0, 1, 2, 3, 4, 5, 6, 7, 8, 9}" by auto
  then show ?thesis by (auto simp: digit_def is_digit_def)
qed

lemma show_nat_digits: "list_all is_digit (show_nat n) \<and> show_nat n \<noteq> []"
proof (induction n rule: show_nat.induct)
  case (1 n)
  show ?case
  proof (cases "n < 10")
    case True
    then show ?thesis by (subst (1 2) show_nat.simps) (simp add: digit_cases)
  next
    case False
    with 1 have "list_all is_digit (show_nat (n div 10))" by simp
    moreover have "is_digit (digit (n mod 10))" by (simp add: digit_cases)
    ultimately show ?thesis using False by (subst (1 2) show_nat.simps) simp
  qed
qed

lemma digits_value_snoc: "digits_value (xs @ [c]) = 10 * digits_value xs + (of_char c - 48)"
  by (simp add: digits_value_def)

lemma digits_value_show_nat: "digits_value (show_nat n) = int n"
proof (induction n rule: show_nat.induct)
  case (1 n)
  show ?case
  proof (cases "n < 10")
    case True
    then show ?thesis
      by (subst show_nat.simps) (simp add: digits_value_def digit_cases)
  next
    case False
    with 1 have "digits_value (show_nat (n div 10)) = int (n div 10)" by simp
    then show ?thesis
      using False by (subst show_nat.simps) (simp add: digits_value_snoc digit_cases zdiv_int zmod_int)
  qed
qed

lemma not_space_digit: "is_digit c \<Longrightarrow> \<not> is_space c \<and> c \<noteq> CHR ''-'' \<and> c \<noteq> CHR ''+''"
  by (auto simp: is_digit_def is_space_def)

lemma int8in_show_nat:
  assumes "int n < 2 ^ 63"
  shows "int8in (show_nat n) = Some (int n)"
proof -
  obtain c cs where s: "show_nat n = c # cs" and all: "list_all is_digit (c # cs)"
    using show_nat_digits [of n] by (cases "show_nat n") auto
  then have c: "is_digit c" by simp
  have 1: "dropWhile is_space (c # cs) = c # cs"
    using not_space_digit [OF c] by simp
  have 2: "takeWhile is_digit (c # cs) = c # cs" "dropWhile is_digit (c # cs) = []"
    using all by (simp_all add: list_all_iff)
  have 3: "digits_value (c # cs) = int n"
    using digits_value_show_nat [of n] by (simp add: s)
  show ?thesis
    unfolding int8in_def s 1 Let_def
    using not_space_digit [OF c] 2 3 assms by simp
qed

text \<open>
  Claim C8. On a store that holds the table, the history operation with a positive
  limit \<open>n\<close> answers with the first \<open>n\<close> rows in descending order of
  \<^verbatim>\<open>created_at\<close>: at most \<open>n\<close> rows of the table, newest first, none of the rows
  left out being newer than a row returned. After three ingests at increasing instants,
  later than every row already there, the limit 2 returns the third and the second row,
  in this order. Every natural number below \<open>2^63\<close>, written in decimal, is read by the
  store as that limit.
\<close>

theorem history_recent:
  "(has_table s t \<and> int8in l = Some n \<and> 0 < n \<longrightarrow>
      (\<exists>rs. handler s now (get_event (Some [(''limit'', l)])) = (reply 200 (Listing (length rs) rs), s)
         \<and> rs = take (nat n) (newest_first (rows t))
         \<and> length rs \<le> nat n \<and> set rs \<subseteq> set (rows t) \<and> newer_first rs
         \<and> (\<forall>r' \<in> set rs. \<forall>r \<in> set (drop (nat n) (newest_first (rows t))).
               created_at r \<le> created_at r')))
   \<and> (has_table s t \<and> (\<forall>r \<in> set (rows t). created_at r < t1) \<and> t1 < t2 \<and> t2 < t3
        \<and> saved s t1 src1 objs1 r1 s1 \<and> saved s1 t2 src2 objs2 r2 s2
        \<and> saved s2 t3 src3 objs3 r3 s3 \<longrightarrow>
      handler s3 now (get_event (Some [(''limit'', ''2'')])) = (reply 200 (Listing 2 [r3, r2]), s3))
   \<and> (int N < 2 ^ 63 \<longrightarrow> int8in (show_nat N) = Some (int N))"
proof (intro conjI impI)
  assume a: "has_table s t \<and> int8in l = Some n \<and> 0 < n"
  let ?rs = "take (nat n) (newest_first (rows t))"
  have "handler s now (get_event (Some [(''limit'', l)])) = (reply 200 (Listing (length ?rs) ?rs), s)"
    using a handler_limit [of s t l n now] by simp
  moreover have "set ?rs \<subseteq> set (rows t)"
    using set_take_subset [of "nat n" "newest_first (rows t)"] by simp
  moreover have "newer_first ?rs"
    by (rule newer_first_take) (rule newer_first_newest_first)
  moreover have "\<forall>r' \<in> set ?rs. \<forall>r \<in> set (drop (nat n) (newest_first (rows t))).
      created_at r \<le> created_at r'"
    using newer_first_split [OF newer_first_newest_first] by blast
  ultimately show "\<exists>rs. handler s now (get_event (Some [(''limit'', l)])) = (reply 200 (Listing (length rs) rs), s)
         \<and> rs = take (nat n) (newest_first (rows t))
         \<and> length rs \<le> nat n \<and> set rs \<subseteq> set (rows t) \<and> newer_first rs
         \<and> (\<forall>r' \<in> set rs. \<forall>r \<in> set (drop (nat n) (newest_first (rows t))).
               created_at r \<le> created_at r')"
    by simp
next
  assume a: "has_table s t \<and> (\<forall>r \<in> set (rows t). created_at r < t1) \<and> t1 < t2 \<and> t2 < t3
        \<and> saved s t1 src1 objs1 r1 s1 \<and> saved s1 t2 src2 objs2 r2 s2
        \<and> saved s2 t3 src3 objs3 r3 s3"
  let ?u1 = "t\<lparr>rows := rows t @ [r1], serial := serial t + 1\<rparr>"
  let ?u2 = "?u1\<lparr>rows := rows ?u1 @ [r2], serial := serial ?u1 + 1\<rparr>"
  let ?u3 = "?u2\<lparr>rows := rows ?u2 @ [r3], serial := serial ?u2 + 1\<rparr>"
  from a have 1: "has_table s1 ?u1" "created_at r1 = t1"
    using saved_step [of s t1 src1 objs1 r1 s1 t] by simp_all
  with a have 2: "has_table s2 ?u2" "created_at r2 = t2"
    using saved_step [of s1 t2 src2 objs2 r2 s2 ?u1] by simp_all
  with a have 3: "has_table s3 ?u3" "created_at r3 = t3"
    using saved_step [of s2 t3 src3 objs3 r3 s3 ?u2] by simp_all
  have rows3: "rows ?u3 = ((rows t @ [r1]) @ [r2]) @ [r3]" by simp
  have "sort_key created_at (rows ?u3) = sort_key created_at (rows t) @ [r1, r2, r3]"
    unfolding rows3 using a 1 2 3
    by (subst sort_key_snoc, fastforce)+ simp
  then have "take 2 (newest_first (rows ?u3)) = [r3, r2]"
    by (simp add: newest_first_def)
  then show "handler s3 now (get_event (Some [(''limit'', ''2'')])) = (reply 200 (Listing 2 [r3, r2]), s3)"
    using handler_limit [OF 3(1) int8in_2, of now] by simp
next
  assume "int N < 2 ^ 63"
  then show "int8in (show_nat N) = Some (int N)" by (rule int8in_show_nat)
qed

lemma has_table_store_with:
  "has_table (store_with rs k) \<lparr>columns = function_schema, rows = rs, serial = k\<rparr>"
  by (simp add: has_table_def store_with_def)

lemma saved_batch3:
  "k' = k + 1 \<Longrightarrow> rs' = rs @ [row_at k now] \<Longrightarrow>
     saved (store_with rs k) now None batch3 (row_at k now) (store_with rs' k')"
  unfolding saved_insert pg_insert_Inr
  by (simp add: avgConfidence_mean text_example)
     (simp add: batch3_def mean_example store_with_def row_at_def row3_def insert_columns_def
       function_schema_def source_or_camera_def varchar_def int4_def totalObjects_def
       uniqueObjects_def hundredths_def)

theorem history_recent_witness:
  "has_table (store_with [] 1) \<lparr>columns = function_schema, rows = [], serial = 1\<rparr>
   \<and> int8in ''2'' = Some 2
   \<and> saved (store_with [] 1) 7 None batch3 (row_at 1 7) (store_with [row_at 1 7] 2)
   \<and> saved (store_with [row_at 1 7] 2) 8 None batch3 (row_at 2 8) (store_with [row_at 1 7, row_at 2 8] 3)
   \<and> saved (store_with [row_at 1 7, row_at 2 8] 3) 9 None batch3 (row_at 3 9)
        (store_with [row_at 1 7, row_at 2 8, row_at 3 9] 4)
   \<and> handler (store_with [row_at 1 7, row_at 2 8, row_at 3 9] 4) 10 (get_event (Some [(''limit'', ''2'')]))
       = (reply 200 (Listing 2 [row_at 3 9, row_at 2 8]), store_with [row_at 1 7, row_at 2 8, row_at 3 9] 4)"
proof -
  let ?t = "\<lparr>columns = function_schema, rows = [], serial = 1\<rparr>"
  have a: "has_table (store_with [] 1) ?t" by (rule has_table_store_with)
  have s1: "saved (store_with [] 1) 7 None batch3 (row_at 1 7) (store_with [row_at 1 7] 2)"
    by (rule saved_batch3) simp_all
  have s2: "saved (store_with [row_at 1 7] 2) 8 None batch3 (row_at 2 8)
      (store_with [row_at 1 7, row_at 2 8] 3)"
    by (rule saved_batch3) simp_all
  have s3: "saved (store_with [row_at 1 7, row_at 2 8] 3) 9 None batch3 (row_at 3 9)
      (store_with [row_at 1 7, row_at 2 8, row_at 3 9] 4)"
    by (rule saved_batch3) simp_all
  have b: "\<forall>r \<in> set (rows ?t). created_at r < 7" by simp
  from history_recent [of "store_with [] 1" ?t "''2''" 2 10 7 8 9 None batch3 "row_at 1 7"
      "store_with [row_at 1 7] 2" None batch3 "row_at 2 8" "store_with [row_at 1 7, row_at 2 8] 3"
      None batch3 "row_at 3 9" "store_with [row_at 1 7, row_at 2 8, row_at 3 9] 4"]
    a b s1 s2 s3 int8in_2
  show ?thesis by simp
qed

section \<open>Statistics\<close>















end
